theory Spec2Isabelle
  imports Main
begin

section \<open>Data model\<close>

text \<open>
  \<^verbatim>\<open>types.ts\<close> declares the configuration handed to the service:
  \<^verbatim>\<open>
  export interface TemplateConfig {
    endpoint: string;
    timeout: number;
  }
  \<close>
  No statement of the program computes with \<^verbatim>\<open>timeout\<close> or compares it, so the record
  is polymorphic in the representation \<open>'n\<close> of the TypeScript type \<^verbatim>\<open>number\<close>: every
  theorem below holds whatever a number is (an integer of milliseconds, as the
  specification's data model has it, or a double). The concrete inputs use \<open>int\<close>.
\<close>

record 'n TemplateConfig =
  endpoint :: string
  timeout :: 'n

text \<open>
  Both methods of the class are \<^verbatim>\<open>async\<close>: a call yields a promise that is either
  fulfilled with the returned value or rejected with what the body threw. The settled
  promise is a sum, \<open>Inl\<close> the rejection and \<open>Inr\<close> the value. The two bodies contain no
  \<^verbatim>\<open>throw\<close>, no call and no property read of a possibly absent object, hence no
  definition below builds a \<open>Rejected\<close>.
\<close>

datatype rejection = Rejected string

type_synonym 'a settled = "rejection + 'a"

text \<open>
  The class of \<^verbatim>\<open>client.ts\<close>:
  \<^verbatim>\<open>
  export class TemplateService {
    private config: TemplateConfig | null = null;

    async init(config: TemplateConfig): Promise<void> {
      this.config = config;
    }

    async health(): Promise<boolean> {
      return this.config !== null;
    }
  }
  \<close>
  The object is a record of its one field; \<^verbatim>\<open>TemplateConfig | null\<close> is an option, with
  \<open>None\<close> for \<^verbatim>\<open>null\<close>. A method takes the object and returns the settled promise
  together with the object as the call leaves it. The parameter of \<^verbatim>\<open>init\<close> has the type
  \<^verbatim>\<open>TemplateConfig\<close>, which excludes \<^verbatim>\<open>null\<close>; so the argument of \<open>init\<close> is a
  configuration, not an option.
\<close>

record 'n TemplateService =
  config :: "'n TemplateConfig option"

text \<open>\<^verbatim>\<open>new TemplateService()\<close>: the field initialiser sets \<^verbatim>\<open>config\<close> to \<^verbatim>\<open>null\<close>.\<close>

definition new_TemplateService :: "'n TemplateService" where
  "new_TemplateService = \<lparr>config = None\<rparr>"

definition init ::
  "'n TemplateConfig \<Rightarrow> 'n TemplateService \<Rightarrow> unit settled \<times> 'n TemplateService" where
  "init c s = (Inr (), s\<lparr>config := Some c\<rparr>)"

definition health :: "'n TemplateService \<Rightarrow> bool settled \<times> 'n TemplateService" where
  "health s = (Inr (config s \<noteq> None), s)"

subsection \<open>Clients of the handle\<close>

text \<open>
  A client can do two things with a handle, call \<^verbatim>\<open>init\<close> with some configuration or
  call \<^verbatim>\<open>health\<close>; \<open>perform_all\<close> runs a sequence of such calls, first to last, and
  returns the handle as the last call leaves it.
\<close>

datatype 'n call = Init "'n TemplateConfig" | Health

fun perform :: "'n call \<Rightarrow> 'n TemplateService \<Rightarrow> 'n TemplateService" where
  "perform (Init c) s = snd (init c s)"
| "perform Health s = snd (health s)"

fun perform_all :: "'n call list \<Rightarrow> 'n TemplateService \<Rightarrow> 'n TemplateService" where
  "perform_all [] s = s"
| "perform_all (k # ks) s = perform_all ks (perform k s)"

section \<open>Properties\<close>

subsection \<open>Auxiliary facts\<close>

lemma config_init [simp]: "config (snd (init c s)) = Some c"
  by (simp add: init_def)

lemma result_init [simp]: "fst (init c s) = Inr ()"
  by (simp add: init_def)

lemma state_health [simp]: "snd (health s) = s"
  by (simp add: health_def)

lemma result_health [simp]: "fst (health s) = Inr (config s \<noteq> None)"
  by (simp add: health_def)

lemma perform_keeps_held: "config s \<noteq> None \<Longrightarrow> config (perform k s) \<noteq> None"
  by (cases k) simp_all

lemma perform_all_keeps_held: "config s \<noteq> None \<Longrightarrow> config (perform_all ks s) \<noteq> None"
proof (induction ks arbitrary: s)
  case Nil
  then show ?case by simp
next
  case (Cons k ks)
  from Cons.prems have "config (perform k s) \<noteq> None"
    by (rule perform_keeps_held)
  then have "config (perform_all ks (perform k s)) \<noteq> None"
    by (rule Cons.IH)
  then show ?case by simp
qed

subsection \<open>Initialisation and the health check\<close>

text \<open>
  Claim C1. For every configuration \<open>c\<close> and every handle, whatever it held before,
  \<^verbatim>\<open>health()\<close> called after \<^verbatim>\<open>init(c)\<close> is fulfilled with \<^verbatim>\<open>true\<close>.
\<close>

theorem health_after_init: "fst (health (snd (init c s))) = Inr True"
  by simp

text \<open>
  Claim C2. On a freshly constructed handle, before any call of \<^verbatim>\<open>init\<close>,
  \<^verbatim>\<open>health()\<close> is fulfilled with \<^verbatim>\<open>false\<close>.
\<close>

theorem health_of_new: "fst (health new_TemplateService) = Inr False"
  by (simp add: new_TemplateService_def)

text \<open>
  Claim C3. Initialized is terminal: from a handle whose \<^verbatim>\<open>health()\<close> gives \<^verbatim>\<open>true\<close>,
  every sequence of \<^verbatim>\<open>init\<close> and \<^verbatim>\<open>health\<close> calls ends in a handle whose \<^verbatim>\<open>health()\<close>
  gives \<^verbatim>\<open>true\<close> again. The sequence is arbitrary, so this covers every state passed
  on the way.
\<close>

theorem initialized_is_terminal:
  "fst (health s) = Inr True \<Longrightarrow> fst (health (perform_all ks s)) = Inr True"
  using perform_all_keeps_held [of s ks] by simp

theorem initialized_is_terminal_witness:
  "fst (health (snd (init \<lparr>endpoint = ''http://localhost'', timeout = 5000 :: int\<rparr>
      new_TemplateService))) = Inr True
   \<and> fst (health (perform_all [Health, Init \<lparr>endpoint = '''', timeout = 0\<rparr>, Health]
      (snd (init \<lparr>endpoint = ''http://localhost'', timeout = 5000 :: int\<rparr>
        new_TemplateService)))) = Inr True"
  using initialized_is_terminal
    [of "snd (init \<lparr>endpoint = ''http://localhost'', timeout = 5000 :: int\<rparr>
          new_TemplateService)"
        "[Health, Init \<lparr>endpoint = '''', timeout = 0\<rparr>, Health]"]
  by simp

subsection \<open>What the handle holds\<close>

text \<open>
  Claim C4, as amended. The claim says that no operation changes a held configuration;
  \<^verbatim>\<open>init\<close> assigns its argument without any guard, so a later \<^verbatim>\<open>init\<close> replaces it.
  What holds: from a handle that holds \<open>c\<close>, \<^verbatim>\<open>health()\<close> leaves it holding \<open>c\<close>, and
  \<^verbatim>\<open>init(c')\<close> leaves it holding exactly one configuration, namely \<open>c'\<close>, which is \<open>c\<close>
  only when \<open>c' = c\<close>.
\<close>

theorem held_config_after_call:
  "config s = Some c \<Longrightarrow>
     config (snd (health s)) = Some c
     \<and> config (snd (init c' s)) = Some c'
     \<and> (config (snd (init c' s)) = Some c \<longleftrightarrow> c' = c)"
  by simp

theorem held_config_after_call_witness:
  "config (snd (init \<lparr>endpoint = ''a'', timeout = 1 :: int\<rparr> new_TemplateService))
     = Some \<lparr>endpoint = ''a'', timeout = 1\<rparr>
   \<and> config (snd (health
         (snd (init \<lparr>endpoint = ''a'', timeout = 1 :: int\<rparr> new_TemplateService))))
     = Some \<lparr>endpoint = ''a'', timeout = 1\<rparr>
   \<and> config (snd (init \<lparr>endpoint = ''b'', timeout = 2\<rparr>
         (snd (init \<lparr>endpoint = ''a'', timeout = 1 :: int\<rparr> new_TemplateService))))
     = Some \<lparr>endpoint = ''b'', timeout = 2\<rparr>"
  using held_config_after_call
    [of "snd (init \<lparr>endpoint = ''a'', timeout = 1 :: int\<rparr> new_TemplateService)"
        "\<lparr>endpoint = ''a'', timeout = 1\<rparr>"
        "\<lparr>endpoint = ''b'', timeout = 2\<rparr>"]
  by simp

text \<open>
  The claim C4 as it is written fails: the handle obtained by
  \<^verbatim>\<open>init({endpoint: "a", timeout: 1})\<close> holds that configuration, and after
  \<^verbatim>\<open>init({endpoint: "b", timeout: 2})\<close> it does not hold it any more.
\<close>

theorem held_config_replaced_counterexample:
  "config (snd (init \<lparr>endpoint = ''a'', timeout = 1 :: int\<rparr> new_TemplateService))
     = Some \<lparr>endpoint = ''a'', timeout = 1\<rparr>
   \<and> config (snd (init \<lparr>endpoint = ''b'', timeout = 2\<rparr>
         (snd (init \<lparr>endpoint = ''a'', timeout = 1 :: int\<rparr> new_TemplateService))))
     \<noteq> Some \<lparr>endpoint = ''a'', timeout = 1\<rparr>"
  by simp

text \<open>
  Claim C5. \<^verbatim>\<open>init(c)\<close> stores its argument as it is: afterwards the handle holds \<open>c\<close>,
  with the endpoint and the timeout it was given, for every \<open>c\<close> and every handle.
\<close>

theorem init_stores_argument:
  "config (snd (init c s)) = Some c
   \<and> map_option endpoint (config (snd (init c s))) = Some (endpoint c)
   \<and> map_option timeout (config (snd (init c s))) = Some (timeout c)"
  by simp

text \<open>
  Claim C6. Two calls of \<^verbatim>\<open>init\<close> in a row, with any two configurations and in particular
  with two different ones, are both fulfilled, and \<^verbatim>\<open>health()\<close> gives \<^verbatim>\<open>true\<close> after
  the second.
\<close>

theorem init_twice:
  "fst (init c1 s) = Inr ()
   \<and> fst (init c2 (snd (init c1 s))) = Inr ()
   \<and> fst (health (snd (init c2 (snd (init c1 s))))) = Inr True"
  by simp

theorem init_twice_witness:
  "\<lparr>endpoint = ''http://localhost'', timeout = 5000 :: int\<rparr>
     \<noteq> \<lparr>endpoint = ''http://example.org'', timeout = 30\<rparr>
   \<and> fst (init \<lparr>endpoint = ''http://localhost'', timeout = 5000 :: int\<rparr>
        new_TemplateService) = Inr ()
   \<and> fst (init \<lparr>endpoint = ''http://example.org'', timeout = 30\<rparr>
        (snd (init \<lparr>endpoint = ''http://localhost'', timeout = 5000 :: int\<rparr>
          new_TemplateService))) = Inr ()
   \<and> fst (health (snd (init \<lparr>endpoint = ''http://example.org'', timeout = 30\<rparr>
        (snd (init \<lparr>endpoint = ''http://localhost'', timeout = 5000 :: int\<rparr>
          new_TemplateService))))) = Inr True"
  using init_twice
    [of "\<lparr>endpoint = ''http://localhost'', timeout = 5000 :: int\<rparr>"
        new_TemplateService
        "\<lparr>endpoint = ''http://example.org'', timeout = 30\<rparr>"]
  by simp

text \<open>
  Claim C7. Degenerate values are accepted: on a new handle
  \<^verbatim>\<open>init({endpoint: "", timeout: 0})\<close> is fulfilled, and \<^verbatim>\<open>health()\<close> then gives
  \<^verbatim>\<open>true\<close>.
\<close>

theorem degenerate_config_accepted:
  "fst (init \<lparr>endpoint = '''', timeout = 0 :: int\<rparr> new_TemplateService) = Inr ()
   \<and> fst (health (snd (init \<lparr>endpoint = '''', timeout = 0 :: int\<rparr> new_TemplateService)))
     = Inr True"
  by simp

subsection \<open>Failure and effects\<close>

text \<open>
  Claim C8. Neither method can fail: for every configuration and every handle the promise
  of \<^verbatim>\<open>init\<close> is fulfilled (with no value) and the promise of \<^verbatim>\<open>health\<close> is fulfilled
  with a boolean; no rejection \<open>e\<close> is the outcome of either.
\<close>

theorem no_rejection:
  "fst (init c s) = Inr ()
   \<and> (\<exists>b. fst (health s) = Inr b)
   \<and> fst (init c s) \<noteq> Inl e
   \<and> fst (health s) \<noteq> Inl e"
  by simp

text \<open>
  Claim C9. \<^verbatim>\<open>health()\<close> only reads: the handle after the call is the handle before it,
  and so is the configuration it holds.
\<close>

theorem health_pure_read:
  "snd (health s) = s \<and> config (snd (health s)) = config s"
  by simp

text \<open>
  Claim C10. The last write wins: after \<^verbatim>\<open>init(c1)\<close> and then \<^verbatim>\<open>init(c2)\<close> the handle
  holds \<open>c2\<close>, for all configurations \<open>c1\<close> and \<open>c2\<close> and every handle.
\<close>

theorem second_init_overwrites:
  "config (snd (init c2 (snd (init c1 s)))) = Some c2"
  by simp

end
